theory Spec2Isabelle
  imports Complex_Main "HOL-Library.Word"
begin

section \<open>Python values, exceptions and the world outside the handlers\<close>

text \<open>
  The repository holds four Python files: two FastAPI services
  (\<^verbatim>\<open>api/python/main.py\<close> and \<^verbatim>\<open>app/api/route.py\<close>) and two Streamlit front ends.
  Each has a \<^verbatim>\<open>process_audio\<close> that stores the upload in a temporary file, calls the
  captioning model and answers with the caption. The model, the audio decoder, the
  temporary-file generator and the HTTP client are libraries; they are parameters of the
  embedding (the record \<open>env\<close>), and what the handlers do to the file system and which
  library calls they make is recorded in the state (the record \<open>world\<close>).
\<close>

text \<open>
  A Python \<^verbatim>\<open>str\<close> is held as the bytes of its UTF-8 encoding (a \<open>char\<close> is a byte), the
  content of a file as a list of bytes.
\<close>

type_synonym path = string
type_synonym bytes = "8 word list"

text \<open>
  Exceptions. \<open>HTTPException\<close> is FastAPI's, with its status code and detail;
  \<open>PyException\<close> is any other subclass of \<^verbatim>\<open>Exception\<close> (class name, \<^verbatim>\<open>str(e)\<close>);
  \<open>BaseExc\<close> is a \<^verbatim>\<open>BaseException\<close> outside \<^verbatim>\<open>Exception\<close> (KeyboardInterrupt,
  a cancellation), which \<^verbatim>\<open>except Exception\<close> does not catch.
\<close>

datatype exn =
    HTTPException nat string
  | PyException string string
  | BaseExc string

fun is_Exception :: "exn \<Rightarrow> bool" where
  "is_Exception (HTTPException c d) = True"
| "is_Exception (PyException cls msg) = True"
| "is_Exception (BaseExc n) = False"

text \<open>
  What \<^verbatim>\<open>generate_caption\<close> may hand back. \<open>PyObj t s r\<close> is any other object (a
  number, a tuple, a dict), given by its truth value \<open>t\<close>, its \<^verbatim>\<open>str()\<close> \<open>s\<close> and what
  subscripting it with 0 does: \<open>r\<close> is the element, or the exception raised.
\<close>

datatype pyval =
    PyNone
  | PyStr string
  | PyList "pyval list"
  | PyObj bool string "exn + pyval"

fun truthy :: "pyval \<Rightarrow> bool" where
  "truthy PyNone = False"
| "truthy (PyStr s) = (s \<noteq> [])"
| "truthy (PyList xs) = (xs \<noteq> [])"
| "truthy (PyObj t s r) = t"

fun isinstance_list :: "pyval \<Rightarrow> bool" where
  "isinstance_list (PyList xs) = True"
| "isinstance_list v = False"

datatype json = JNull | JStr string

type_synonym response = "(string \<times> json) list"

text \<open>The keyword arguments of \<^verbatim>\<open>generate_caption\<close>; the temperature is the decimal literal.\<close>

record gen_args =
  audio_files :: "path list"
  resample :: bool
  beam_size :: nat
  entry_length :: nat
  temperature :: rat

datatype event =
    Create path
  | Read_upload
  | Write path bytes
  | Unlink path
  | Decode path
  | Export path
  | Generate_caption gen_args
  | Predict path
  | Requests_get "string option"
  | St_error string

record world =
  files :: "path \<rightharpoonup> bytes"
  events :: "event list"

datatype audio_segment = AudioSegment bytes

text \<open>
  \<^verbatim>\<open>audio.export\<close> opens the output file and then encodes into it: it either writes the
  whole file, or raises, leaving no file (the open failed) or a partial one.
\<close>

datatype export_result =
    Exported bytes
  | Export_failed exn "bytes option"

type_synonym captioner = "gen_args \<Rightarrow> (path \<rightharpoonup> bytes) \<Rightarrow> exn + pyval"

text \<open>
  What \<^verbatim>\<open>requests.get\<close> answers: the status, the body in the chunks the connection
  delivers, and the error that breaks the connection after them, if any.
\<close>

record http_response =
  status_code :: nat
  chunks :: "bytes list"
  broken :: "exn option"

type_synonym predictor = "path \<Rightarrow> (path \<rightharpoonup> bytes) \<Rightarrow> exn + pyval"

text \<open>
  The libraries and the process's surroundings: the module global \<^verbatim>\<open>clap_model\<close> of the
  two services, \<^verbatim>\<open>st.session_state.model\<close> of the two Streamlit front ends (a
  \<^verbatim>\<open>CLAP\<close> in \<^verbatim>\<open>streamlit_app.py\<close>, a \<^verbatim>\<open>CLAPCap\<close> in
  \<^verbatim>\<open>api/python/streamlit_app.py\<close>), the names \<^verbatim>\<open>tempfile\<close> draws, the operating
  system's refusal to create a file of a given name, \<^verbatim>\<open>str.lower()\<close> beyond ASCII, pydub's
  decoder and encoder, Starlette's \<^verbatim>\<open>str()\<close> of an HTTPException, \<^verbatim>\<open>str()\<close> of a list, the
  environment variables and the remote server.
\<close>

record env =
  clap_model :: "captioner option"
  session_model :: "captioner option"
  clapcap_model :: "predictor option"
  temp_names :: "string list"
  open_error :: "path \<Rightarrow> exn option"
  unicode_lower :: "string \<Rightarrow> string"
  from_file :: "path \<Rightarrow> bytes \<Rightarrow> exn + audio_segment"
  export :: "audio_segment \<Rightarrow> export_result"
  http_str :: "nat \<Rightarrow> string \<Rightarrow> string"
  list_str :: "pyval list \<Rightarrow> string"
  environ :: "string \<rightharpoonup> string"
  requests_get :: "string \<Rightarrow> exn + http_response"

text \<open>An uploaded file (Starlette's \<^verbatim>\<open>UploadFile\<close>): name and content type are optional.\<close>

record upload =
  filename :: "string option"
  content_type :: "string option"
  content :: bytes

section \<open>Computations that change the world and may raise\<close>

type_synonym ('s, 'a) io = "'s \<Rightarrow> (exn + 'a) \<times> 's"

definition return :: "'a \<Rightarrow> ('s, 'a) io" where
  "return x = (\<lambda>s. (Inr x, s))"

definition raise :: "exn \<Rightarrow> ('s, 'a) io" where
  "raise e = (\<lambda>s. (Inl e, s))"

definition bind :: "('s, 'a) io \<Rightarrow> ('a \<Rightarrow> ('s, 'b) io) \<Rightarrow> ('s, 'b) io" where
  "bind m f = (\<lambda>s. case m s of (Inl e, s') \<Rightarrow> (Inl e, s') | (Inr x, s') \<Rightarrow> f x s')"

text \<open>\<^verbatim>\<open>try: m except ...: h\<close>: the handler sees the exception and the state it left.\<close>

definition try_except :: "('s, 'a) io \<Rightarrow> (exn \<Rightarrow> ('s, 'a) io) \<Rightarrow> ('s, 'a) io" where
  "try_except m h = (\<lambda>s. case m s of (Inl e, s') \<Rightarrow> h e s' | (Inr x, s') \<Rightarrow> (Inr x, s'))"

text \<open>
  \<^verbatim>\<open>try: m finally: fin\<close>: \<open>fin\<close> runs on every exit of \<open>m\<close>; an exception of \<open>fin\<close>
  replaces the outcome of \<open>m\<close>.
\<close>

definition try_finally :: "('s, 'a) io \<Rightarrow> ('s, unit) io \<Rightarrow> ('s, 'a) io" where
  "try_finally m fin =
     (\<lambda>s. case m s of (r, s') \<Rightarrow>
        (case fin s' of (Inl e, s'') \<Rightarrow> (Inl e, s'') | (Inr u, s'') \<Rightarrow> (r, s'')))"

definition emit :: "event \<Rightarrow> ('w world_scheme, unit) io" where
  "emit ev = (\<lambda>w. (Inr (), w\<lparr>events := events w @ [ev]\<rparr>))"

subsection \<open>Strings\<close>

definition startswith :: "string \<Rightarrow> string \<Rightarrow> bool" where
  "startswith s p = (take (length p) s = p)"

definition quoted :: "string \<Rightarrow> string" where
  "quoted s = CHR 0x27 # s @ [CHR 0x27]"

definition endswith :: "string \<Rightarrow> string \<Rightarrow> bool" where
  "endswith s p = (length p \<le> length s \<and> drop (length s - length p) s = p)"

text \<open>\<^verbatim>\<open>str(e)\<close>: for an HTTPException it is Starlette's, a parameter.\<close>

definition exn_str :: "env \<Rightarrow> exn \<Rightarrow> string" where
  "exn_str env e =
     (case e of
        HTTPException c d \<Rightarrow> http_str env c d
      | PyException cls msg \<Rightarrow> msg
      | BaseExc n \<Rightarrow> n)"

definition py_str :: "env \<Rightarrow> pyval \<Rightarrow> string" where
  "py_str env v =
     (case v of
        PyNone \<Rightarrow> ''None''
      | PyStr s \<Rightarrow> s
      | PyList xs \<Rightarrow> list_str env xs
      | PyObj t s r \<Rightarrow> s)"

subsection \<open>The file system and the libraries\<close>

text \<open>
  \<^verbatim>\<open>tempfile.NamedTemporaryFile(suffix=..., delete=False)\<close>: the library draws random
  names (here \<open>temp_names\<close>) and opens each in turn, exclusively, under the temporary
  directory. A name that exists is skipped; any other failure of the open (a NUL byte
  in the name, a name too long for the file system, no space, here \<open>open_error\<close>) is
  raised to the caller; when every name is taken it raises FileExistsError.
\<close>

fun mkstemp_inner ::
  "(path \<Rightarrow> exn option) \<Rightarrow> string list \<Rightarrow> string \<Rightarrow> (path \<rightharpoonup> bytes) \<Rightarrow> exn + path" where
  "mkstemp_inner refuse [] suffix fs =
     Inl (PyException ''FileExistsError'' ''No usable temporary file name found'')"
| "mkstemp_inner refuse (n # ns) suffix fs =
     (let file = ''/tmp/tmp'' @ n @ suffix
      in case refuse file of
           Some e \<Rightarrow> Inl e
         | None \<Rightarrow> if fs file = None then Inr file else mkstemp_inner refuse ns suffix fs)"

definition NamedTemporaryFile :: "env \<Rightarrow> string \<Rightarrow> ('w world_scheme, path) io" where
  "NamedTemporaryFile env suffix =
     (\<lambda>w. case mkstemp_inner (open_error env) (temp_names env) suffix (files w) of
        Inl e \<Rightarrow> (Inl e, w)
      | Inr file \<Rightarrow>
          (Inr file, w\<lparr>files := (files w)(file \<mapsto> []), events := events w @ [Create file]\<rparr>))"

definition file_read :: "upload \<Rightarrow> ('w world_scheme, bytes) io" where
  "file_read file = (\<lambda>w. (Inr (content file), w\<lparr>events := events w @ [Read_upload]\<rparr>))"

definition write_file :: "path \<Rightarrow> bytes \<Rightarrow> ('w world_scheme, unit) io" where
  "write_file p bs =
     (\<lambda>w. (Inr (), w\<lparr>files := (files w)(p \<mapsto> bs), events := events w @ [Write p bs]\<rparr>))"

definition os_path_exists :: "path \<Rightarrow> 'w world_scheme \<Rightarrow> bool" where
  "os_path_exists p w = (files w p \<noteq> None)"

definition os_unlink :: "path \<Rightarrow> ('w world_scheme, unit) io" where
  "os_unlink p =
     (\<lambda>w. if files w p = None
        then (Inl (PyException ''FileNotFoundError'' (''No such file or directory: '' @ p)), w)
        else (Inr (), w\<lparr>files := (files w)(p := None), events := events w @ [Unlink p]\<rparr>))"

definition generate_caption :: "captioner \<Rightarrow> gen_args \<Rightarrow> ('w world_scheme, pyval) io" where
  "generate_caption model args =
     (\<lambda>w. (model args (files w), w\<lparr>events := events w @ [Generate_caption args]\<rparr>))"

text \<open>The guard \<^verbatim>\<open>not captions or not isinstance(captions, list) or not captions[0]\<close>,
  evaluated left to right as Python does.\<close>

fun malformed :: "pyval \<Rightarrow> bool" where
  "malformed captions =
     (if \<not> truthy captions then True
      else if \<not> isinstance_list captions then True
      else (case captions of PyList (c # cs) \<Rightarrow> \<not> truthy c | _ \<Rightarrow> True))"

text \<open>
  \<^verbatim>\<open>captions[0]\<close>. Strings are held as the bytes of their UTF-8 encoding: the first
  character of a string is its first byte and the continuation bytes (80 to BF) after it.
\<close>

definition is_continuation :: "char \<Rightarrow> bool" where
  "is_continuation b = (128 \<le> (of_char b :: nat) \<and> (of_char b :: nat) < 192)"

fun getitem0 :: "pyval \<Rightarrow> ('s, pyval) io" where
  "getitem0 (PyList (c # cs)) = return c"
| "getitem0 (PyList []) = raise (PyException ''IndexError'' ''list index out of range'')"
| "getitem0 (PyStr (c # cs)) = return (PyStr (c # takeWhile is_continuation cs))"
| "getitem0 (PyStr []) = raise (PyException ''IndexError'' ''string index out of range'')"
| "getitem0 (PyObj t s (Inr c)) = return c"
| "getitem0 (PyObj t s (Inl e)) = raise e"
| "getitem0 PyNone =
     raise (PyException ''TypeError'' (quoted ''NoneType'' @ '' object is not subscriptable''))"

section \<open>api/python/main.py\<close>

text \<open>
  The file as stored does not compile: the call of line 28 is indented by three columns
  under a function body indented by seven. The functions are embedded as they are
  written.
\<close>

text \<open>The body of the \<^verbatim>\<open>try\<close> of \<^verbatim>\<open>process_audio\<close> (lines 140 to 175).\<close>

definition main_try_body :: "env \<Rightarrow> captioner \<Rightarrow> upload \<Rightarrow> (world, response) io" where
  "main_try_body env model file =
     (case content_type file of
        None \<Rightarrow>
          raise (PyException ''AttributeError''
                   (quoted ''NoneType'' @ '' object has no attribute '' @ quoted ''startswith''))
      | Some ct \<Rightarrow>
          if \<not> startswith ct ''audio/''
          then raise (HTTPException 400 ''Invalid file type. Please upload an audio file.'')
          else
            bind (NamedTemporaryFile env ''.wav'') (\<lambda>temp_path.
            bind (file_read file) (\<lambda>content.
            bind (write_file temp_path content) (\<lambda>u.
            bind (generate_caption model
                    \<lparr>audio_files = [temp_path], resample = True, beam_size = 3,
                     entry_length = 67, temperature = 1 / 100\<rparr>) (\<lambda>captions.
            bind (os_unlink temp_path) (\<lambda>u.
            if malformed captions
            then raise (HTTPException 500 ''Failed to generate caption. Please try again.'')
            else bind (getitem0 captions) (\<lambda>c.
                 return [(''caption'', JStr (py_str env c))])))))))"

text \<open>The two \<^verbatim>\<open>except\<close> clauses (lines 177 to 185).\<close>

definition main_except :: "env \<Rightarrow> exn \<Rightarrow> (world, response) io" where
  "main_except env e =
     (case e of
        HTTPException c d \<Rightarrow> raise (HTTPException c d)
      | PyException cls msg \<Rightarrow>
          raise (HTTPException 500 (''Error processing audio: '' @ exn_str env e))
      | BaseExc n \<Rightarrow> raise (BaseExc n))"

definition main_process_audio :: "env \<Rightarrow> upload \<Rightarrow> (world, response) io" where
  "main_process_audio env file =
     (case clap_model env of
        None \<Rightarrow> raise (HTTPException 503 ''Model not initialized. Please try again later.'')
      | Some model \<Rightarrow> try_except (main_try_body env model file) (main_except env))"

section \<open>app/api/route.py\<close>

subsection \<open>The extension of the uploaded file's name\<close>

text \<open>\<^verbatim>\<open>p.rfind(c)\<close>: the last index of \<open>c\<close>, or -1.\<close>

definition rfind :: "string \<Rightarrow> char \<Rightarrow> int" where
  "rfind p c =
     (case filter (\<lambda>i. p ! i = c) (rev [0..<length p]) of
        [] \<Rightarrow> - 1
      | i # is \<Rightarrow> int i)"

text \<open>
  The loop of \<^verbatim>\<open>genericpath._splitext\<close> over the characters between the last separator
  and the last dot: a dot counts as an extension's only if a character before it is not
  a dot.
\<close>

fun has_non_dot :: "string \<Rightarrow> bool" where
  "has_non_dot [] = False"
| "has_non_dot (c # cs) = (if c \<noteq> CHR ''.'' then True else has_non_dot cs)"

definition splitext :: "string \<Rightarrow> string \<times> string" where
  "splitext p =
     (let sepIndex = rfind p CHR ''/'';
          dotIndex = rfind p CHR ''.''
      in if dotIndex > sepIndex \<and>
            has_non_dot (take (nat (dotIndex - (sepIndex + 1))) (drop (nat (sepIndex + 1)) p))
         then (take (nat dotIndex) p, drop (nat dotIndex) p)
         else (p, []))"

definition os_path_splitext :: "string option \<Rightarrow> ('s, string \<times> string) io" where
  "os_path_splitext p =
     (case p of
        None \<Rightarrow>
          raise (PyException ''TypeError''
                   ''expected str, bytes or os.PathLike object, not NoneType'')
      | Some name \<Rightarrow> return (splitext name))"

text \<open>
  \<^verbatim>\<open>str.lower()\<close>. A string is held as the bytes of its UTF-8 encoding, so the dot and
  the separator that \<open>splitext\<close> looks for are the same bytes as in Python's string. On
  a string of ASCII characters \<^verbatim>\<open>lower\<close> maps A-Z to a-z; on any other string the result
  is Unicode's (it may even change the length), the parameter \<open>unicode_lower\<close>.
\<close>

definition lower_char :: "char \<Rightarrow> char" where
  "lower_char c =
     (case map_of (zip ''ABCDEFGHIJKLMNOPQRSTUVWXYZ'' ''abcdefghijklmnopqrstuvwxyz'') c of
        None \<Rightarrow> c
      | Some l \<Rightarrow> l)"

definition is_ascii :: "string \<Rightarrow> bool" where
  "is_ascii s = list_all (\<lambda>c. (of_char c :: nat) < 128) s"

definition lower :: "env \<Rightarrow> string \<Rightarrow> string" where
  "lower env s = (if is_ascii s then map lower_char s else unicode_lower env s)"

subsection \<open>The decoder\<close>

definition AudioSegment_from_file :: "env \<Rightarrow> path \<Rightarrow> ('w world_scheme, audio_segment) io" where
  "AudioSegment_from_file env p =
     (\<lambda>w. case files w p of
        None \<Rightarrow>
          (Inl (PyException ''FileNotFoundError'' (''No such file or directory: '' @ p)), w)
      | Some bs \<Rightarrow> (from_file env p bs, w\<lparr>events := events w @ [Decode p]\<rparr>))"

definition audio_export :: "env \<Rightarrow> audio_segment \<Rightarrow> path \<Rightarrow> ('w world_scheme, unit) io" where
  "audio_export env audio p =
     (\<lambda>w. case export env audio of
        Exported bs \<Rightarrow>
          (Inr (), w\<lparr>files := (files w)(p \<mapsto> bs), events := events w @ [Export p]\<rparr>)
      | Export_failed e None \<Rightarrow> (Inl e, w\<lparr>events := events w @ [Export p]\<rparr>)
      | Export_failed e (Some bs) \<Rightarrow>
          (Inl e, w\<lparr>files := (files w)(p \<mapsto> bs), events := events w @ [Export p]\<rparr>))"

subsection \<open>The handler\<close>

text \<open>The handler's local variables \<^verbatim>\<open>temp_path\<close> and \<^verbatim>\<open>wav_path\<close>, which its
  \<^verbatim>\<open>finally\<close> reads, are part of the state while it runs.\<close>

record route_state = world +
  temp_path :: "path option"
  wav_path :: "path option"

definition set_temp_path :: "path option \<Rightarrow> (route_state, unit) io" where
  "set_temp_path v = (\<lambda>s. (Inr (), s\<lparr>temp_path := v\<rparr>))"

definition set_wav_path :: "path option \<Rightarrow> (route_state, unit) io" where
  "set_wav_path v = (\<lambda>s. (Inr (), s\<lparr>wav_path := v\<rparr>))"

definition json_of_optional :: "string option \<Rightarrow> json" where
  "json_of_optional v = (case v of None \<Rightarrow> JNull | Some s \<Rightarrow> JStr s)"

text \<open>The body of the \<^verbatim>\<open>try\<close> (lines 150 to 193); \<open>name\<close> is the value \<^verbatim>\<open>temp_path\<close>
  holds from line 156 to line 167.\<close>

definition route_try_body ::
  "env \<Rightarrow> captioner \<Rightarrow> upload \<Rightarrow> string option \<Rightarrow> (route_state, response) io" where
  "route_try_body env model audio_file industry =
     bind (os_path_splitext (filename audio_file)) (\<lambda>parts.
     bind (NamedTemporaryFile env (lower env (snd parts))) (\<lambda>name.
     bind (set_temp_path (Some name)) (\<lambda>u.
     bind (file_read audio_file) (\<lambda>content.
     bind (write_file name content) (\<lambda>u.
     bind (AudioSegment_from_file env name) (\<lambda>audio.
     bind (set_wav_path (Some (name @ ''.wav''))) (\<lambda>u.
     bind (audio_export env audio (name @ ''.wav'')) (\<lambda>u.
     bind (os_unlink name) (\<lambda>u.
     bind (set_temp_path None) (\<lambda>u.
     bind (generate_caption model
             \<lparr>audio_files = [name @ ''.wav''], resample = True, beam_size = 3,
              entry_length = 67, temperature = 1 / 100\<rparr>) (\<lambda>captions.
     if malformed captions
     then raise (HTTPException 500 ''Failed to generate caption. Please try again.'')
     else bind (getitem0 captions) (\<lambda>c.
          return [(''caption'', JStr (py_str env c)),
                  (''industry'', json_of_optional industry),
                  (''status'', JStr ''success'')]))))))))))))"

text \<open>\<^verbatim>\<open>except Exception as e\<close> (lines 195 to 200): no clause lets an HTTPException pass.\<close>

definition route_except :: "env \<Rightarrow> exn \<Rightarrow> ('s, response) io" where
  "route_except env e =
     (if is_Exception e
      then raise (HTTPException 500 (''Error processing audio: '' @ exn_str env e))
      else raise e)"

text \<open>\<^verbatim>\<open>if v and os.path.exists(v): os.unlink(v)\<close>.\<close>

definition unlink_if_exists :: "path option \<Rightarrow> ('w world_scheme, unit) io" where
  "unlink_if_exists v =
     (\<lambda>w. case v of
        None \<Rightarrow> (Inr (), w)
      | Some p \<Rightarrow> if p \<noteq> [] \<and> os_path_exists p w then os_unlink p w else (Inr (), w))"

definition route_finally :: "(route_state, unit) io" where
  "route_finally =
     (\<lambda>s. bind (unlink_if_exists (temp_path s)) (\<lambda>u s'. unlink_if_exists (wav_path s') s') s)"

definition route_process_audio :: "env \<Rightarrow> upload \<Rightarrow> string option \<Rightarrow> (world, response) io" where
  "route_process_audio env audio_file industry =
     (case clap_model env of
        None \<Rightarrow> raise (HTTPException 503 ''Model not initialized. Please try again later.'')
      | Some model \<Rightarrow>
          (\<lambda>w. case try_finally
                      (try_except (route_try_body env model audio_file industry)
                         (route_except env))
                      route_finally
                      \<lparr>files = files w, events = events w, temp_path = None, wav_path = None\<rparr>
                of (r, s) \<Rightarrow> (r, \<lparr>files = files s, events = events s\<rparr>)))"

subsection \<open>Fetching the weights\<close>

definition MODEL_URL :: string where
  "MODEL_URL =
     ''https://github.com/MadeByKit/sound-classifier-next/releases/download/v1.0.0/clapcap_weights_2023.pth''"

definition MODEL_PATH :: path where
  "MODEL_PATH = ''clapcap_weights_2023.pth''"

text \<open>
  \<^verbatim>\<open>requests.get(url, stream=...)\<close>. The event records the call and its argument. With no
  URL the library raises before it connects; without \<^verbatim>\<open>stream\<close> the body is read
  inside the call, so a broken connection raises there.
\<close>

definition requests_get_call ::
  "env \<Rightarrow> string option \<Rightarrow> bool \<Rightarrow> ('w world_scheme, http_response) io" where
  "requests_get_call env url stream =
     (\<lambda>w. let w' = w\<lparr>events := events w @ [Requests_get url]\<rparr>
          in case url of
               None \<Rightarrow>
                 (Inl (PyException ''MissingSchema''
                         ''Invalid URL None: No scheme supplied''), w')
             | Some u \<Rightarrow>
                 (case requests_get env u of
                    Inl e \<Rightarrow> (Inl e, w')
                  | Inr r \<Rightarrow>
                      (case broken r of
                         None \<Rightarrow> (Inr r, w')
                       | Some e \<Rightarrow> if stream then (Inr r, w') else (Inl e, w'))))"

definition raise_for_status :: "http_response \<Rightarrow> ('s, unit) io" where
  "raise_for_status r =
     (if 400 \<le> status_code r \<and> status_code r < 600
      then raise (PyException ''HTTPError'' ''Client or Server Error'')
      else return ())"

text \<open>\<^verbatim>\<open>open(p, 'wb')\<close> creates the file or empties it.\<close>

definition open_wb :: "path \<Rightarrow> ('w world_scheme, unit) io" where
  "open_wb p = (\<lambda>w. (Inr (), w\<lparr>files := (files w)(p \<mapsto> [])\<rparr>))"

text \<open>\<^verbatim>\<open>for chunk in response.iter_content(...): f.write(chunk)\<close>.\<close>

fun write_chunks :: "path \<Rightarrow> bytes list \<Rightarrow> 'w world_scheme \<Rightarrow> 'w world_scheme" where
  "write_chunks p [] w = w"
| "write_chunks p (c # cs) w =
     write_chunks p cs
       (w\<lparr>files := (files w)(p \<mapsto> (case files w p of None \<Rightarrow> c | Some old \<Rightarrow> old @ c))\<rparr>)"

definition iter_content_write :: "path \<Rightarrow> http_response \<Rightarrow> ('w world_scheme, unit) io" where
  "iter_content_write p r =
     (\<lambda>w. let w' = write_chunks p (chunks r) w
          in case broken r of None \<Rightarrow> (Inr (), w') | Some e \<Rightarrow> (Inl e, w'))"

text \<open>\<^verbatim>\<open>download_model\<close> of route.py (lines 37 to 51).\<close>

definition route_download_model :: "env \<Rightarrow> (world, unit) io" where
  "route_download_model env =
     (\<lambda>w. if \<not> os_path_exists MODEL_PATH w
        then try_except
               (bind (requests_get_call env (Some MODEL_URL) True) (\<lambda>response.
                bind (raise_for_status response) (\<lambda>u.
                bind (open_wb MODEL_PATH) (\<lambda>u.
                iter_content_write MODEL_PATH response))))
               (\<lambda>e. if is_Exception e
                    then raise (PyException ''RuntimeError''
                                  (''Failed to download model: '' @ exn_str env e))
                    else raise e) w
        else (Inr (), w))"

section \<open>api/python/main.py: fetching the weights\<close>

text \<open>
  \<^verbatim>\<open>download_model\<close> of main.py (lines 17 to 25). The URL it passes to
  \<^verbatim>\<open>requests.get\<close> is \<^verbatim>\<open>os.getenv(...)\<close> of the release URL: the value of the environment
  variable of that name. There is no \<^verbatim>\<open>raise_for_status\<close>, and the file is opened
  after the body has been read.
\<close>

definition main_download_model :: "env \<Rightarrow> (world, unit) io" where
  "main_download_model env =
     (\<lambda>w. if \<not> os_path_exists MODEL_PATH w
        then bind (requests_get_call env (environ env MODEL_URL) False) (\<lambda>response.
             bind (open_wb MODEL_PATH) (\<lambda>u.
             write_file MODEL_PATH (concat (chunks response)))) w
        else (Inr (), w))"

section \<open>The Streamlit front ends\<close>

text \<open>\<^verbatim>\<open>process_audio\<close> of streamlit_app.py (lines 90 to 131), a FastAPI handler on
  \<^verbatim>\<open>st.session_state.model\<close>.\<close>

definition streamlit_try_body :: "env \<Rightarrow> captioner \<Rightarrow> upload \<Rightarrow> (world, response) io" where
  "streamlit_try_body env model file =
     bind (NamedTemporaryFile env ''.wav'') (\<lambda>temp_path.
     bind (file_read file) (\<lambda>content.
     bind (write_file temp_path content) (\<lambda>u.
     bind (generate_caption model
             \<lparr>audio_files = [temp_path], resample = True, beam_size = 3,
              entry_length = 67, temperature = 1 / 100\<rparr>) (\<lambda>captions.
     bind (os_unlink temp_path) (\<lambda>u.
     if malformed captions
     then raise (HTTPException 500 ''Failed to generate caption. Please try again.'')
     else bind (getitem0 captions) (\<lambda>c.
          return [(''caption'', JStr (py_str env c))]))))))"

definition streamlit_process_audio :: "env \<Rightarrow> upload \<Rightarrow> (world, response) io" where
  "streamlit_process_audio env file =
     (case session_model env of
        None \<Rightarrow> raise (HTTPException 503 ''Model not initialized'')
      | Some model \<Rightarrow> try_except (streamlit_try_body env model file) (route_except env))"

text \<open>\<^verbatim>\<open>st.session_state.model.generate_caption\<close> when the model may be None.\<close>

definition session_generate_caption :: "env \<Rightarrow> gen_args \<Rightarrow> ('w world_scheme, pyval) io" where
  "session_generate_caption env args =
     (case session_model env of
        None \<Rightarrow>
          raise (PyException ''AttributeError''
                   (quoted ''NoneType'' @ '' object has no attribute '' @
                    quoted ''generate_caption''))
      | Some model \<Rightarrow> generate_caption model args)"

text \<open>The Streamlit page reports an error and goes on with \<^verbatim>\<open>None\<close>.\<close>

definition st_error_handler :: "env \<Rightarrow> exn \<Rightarrow> ('w world_scheme, pyval) io" where
  "st_error_handler env e =
     (if is_Exception e
      then bind (emit (St_error (''Error processing audio: '' @ exn_str env e))) (\<lambda>u.
           return PyNone)
      else raise e)"

text \<open>\<^verbatim>\<open>process_audio_streamlit\<close> of streamlit_app.py (lines 133 to 152).\<close>

definition process_audio_streamlit :: "env \<Rightarrow> upload \<Rightarrow> (world, pyval) io" where
  "process_audio_streamlit env audio_file =
     try_except
       (bind (NamedTemporaryFile env ''.wav'') (\<lambda>temp_path.
        bind (file_read audio_file) (\<lambda>content.
        bind (write_file temp_path content) (\<lambda>u.
        bind (session_generate_caption env
                \<lparr>audio_files = [temp_path], resample = True, beam_size = 3,
                 entry_length = 67, temperature = 1 / 100\<rparr>) (\<lambda>captions.
        bind (os_unlink temp_path) (\<lambda>u.
        if truthy captions then getitem0 captions else return PyNone))))))
       (st_error_handler env)"

text \<open>\<^verbatim>\<open>st.session_state.model.predict(temp_path)\<close> of api/python/streamlit_app.py.\<close>

definition model_predict :: "env \<Rightarrow> path \<Rightarrow> ('w world_scheme, pyval) io" where
  "model_predict env p =
     (case clapcap_model env of
        None \<Rightarrow>
          raise (PyException ''AttributeError''
                   (quoted ''NoneType'' @ '' object has no attribute '' @ quoted ''predict''))
      | Some model \<Rightarrow>
          (\<lambda>w. (model p (files w), w\<lparr>events := events w @ [Predict p]\<rparr>)))"

text \<open>\<^verbatim>\<open>process_audio\<close> of api/python/streamlit_app.py (lines 74 to 87).\<close>

definition clapcap_process_audio :: "env \<Rightarrow> upload \<Rightarrow> (world, pyval) io" where
  "clapcap_process_audio env audio_file =
     try_except
       (bind (NamedTemporaryFile env ''.wav'') (\<lambda>temp_path.
        bind (file_read audio_file) (\<lambda>content.
        bind (write_file temp_path content) (\<lambda>u.
        bind (model_predict env temp_path) (\<lambda>caption.
        bind (os_unlink temp_path) (\<lambda>u.
        return caption))))))
       (st_error_handler env)"

section \<open>What a call did\<close>

text \<open>The events a call added to the record of the world.\<close>

definition emitted :: "world \<Rightarrow> world \<Rightarrow> event list" where
  "emitted w w' = drop (length (events w)) (events w')"

text \<open>The decoding parameters written at every \<^verbatim>\<open>generate_caption\<close> call site.\<close>

definition fixed_args :: "path \<Rightarrow> gen_args" where
  "fixed_args p =
     \<lparr>audio_files = [p], resample = True, beam_size = 3, entry_length = 67,
      temperature = 1 / 100\<rparr>"

text \<open>
  An event is a \<open>fixed_call\<close> unless it invokes the model otherwise than by
  \<^verbatim>\<open>generate_caption\<close> on one file with \<^verbatim>\<open>resample=True\<close>, \<^verbatim>\<open>beam_size=3\<close>,
  \<^verbatim>\<open>entry_length=67\<close> and \<^verbatim>\<open>temperature=0.01\<close>.
\<close>

fun fixed_call :: "event \<Rightarrow> bool" where
  "fixed_call (Generate_caption args) =
     (length (audio_files args) = 1 \<and> resample args \<and> beam_size args = 3 \<and>
      entry_length args = 67 \<and> temperature args = 1 / 100)"
| "fixed_call (Predict p) = False"
| "fixed_call ev = True"

text \<open>An event other than a \<^verbatim>\<open>generate_caption\<close> call.\<close>

fun no_generate_caption :: "event \<Rightarrow> bool" where
  "no_generate_caption (Generate_caption args) = False"
| "no_generate_caption ev = True"

text \<open>A computation only adds events to the record, and each of them satisfies \<open>P\<close>.\<close>

definition appends :: "(event \<Rightarrow> bool) \<Rightarrow> ('w world_scheme, 'a) io \<Rightarrow> bool" where
  "appends P m = (\<forall>w. \<exists>evs. events (snd (m w)) = events w @ evs \<and> list_all P evs)"

section \<open>Concrete surroundings\<close>

text \<open>A model that captions, one that raises, and one that returns no caption.\<close>

definition captioning_model :: captioner where
  "captioning_model = (\<lambda>args fs. Inr (PyList [PyStr ''a dog barks'']))"

definition raising_model :: captioner where
  "raising_model = (\<lambda>args fs. Inl (PyException ''RuntimeError'' ''out of memory''))"

definition silent_model :: captioner where
  "silent_model = (\<lambda>args fs. Inr (PyList []))"

text \<open>A decoder that accepts what starts with the bytes of \<^verbatim>\<open>RIFF\<close>.\<close>

definition riff_decoder :: "path \<Rightarrow> bytes \<Rightarrow> exn + audio_segment" where
  "riff_decoder p bs =
     (if take 4 bs = [0x52, 0x49, 0x46, 0x46] then Inr (AudioSegment bs)
      else Inl (PyException ''CouldntDecodeError'' ''Decoding failed''))"

definition wav_encoder :: "audio_segment \<Rightarrow> export_result" where
  "wav_encoder a = (case a of AudioSegment bs \<Rightarrow> Exported bs)"

text \<open>Starlette's \<^verbatim>\<open>str()\<close> of an HTTPException: the three-digit status, a colon, the detail.\<close>

definition starlette_str :: "nat \<Rightarrow> string \<Rightarrow> string" where
  "starlette_str c d =
     [''0123456789'' ! (c div 100 mod 10), ''0123456789'' ! (c div 10 mod 10),
      ''0123456789'' ! (c mod 10)] @ '': '' @ d"

text \<open>
  Lower-casing for the examples: ASCII letters, and the capital letters of the Latin-1
  supplement, which UTF-8 writes as the byte C3 and a byte from 80 to 9E (but 97, the
  multiplication sign); the small letter sets the bit of weight 32 in the second byte.
\<close>

fun latin_lower :: "string \<Rightarrow> string" where
  "latin_lower (a # b # cs) =
     (if a = CHR 0xC3 \<and> 128 \<le> (of_char b :: nat) \<and> (of_char b :: nat) \<le> 158 \<and>
         b \<noteq> CHR 0x97
      then a # (case b of Char b0 b1 b2 b3 b4 b5 b6 b7 \<Rightarrow> Char b0 b1 b2 b3 b4 True b6 b7)
             # latin_lower cs
      else lower_char a # latin_lower (b # cs))"
| "latin_lower [a] = [lower_char a]"
| "latin_lower [] = []"

text \<open>
  What a POSIX system refuses to create: a name with a NUL byte, or one whose last
  component is longer than 255 bytes.
\<close>

definition posix_open_error :: "path \<Rightarrow> exn option" where
  "posix_open_error p =
     (if CHR 0x00 \<in> set p then Some (PyException ''ValueError'' ''embedded null byte'')
      else if 255 < length (drop (nat (rfind p CHR ''/'' + 1)) p)
      then Some (PyException ''OSError'' ''File name too long'')
      else None)"

definition example_env :: env where
  "example_env =
     \<lparr>clap_model = Some captioning_model,
      session_model = Some captioning_model,
      clapcap_model = Some (\<lambda>p fs. Inr (PyStr ''a dog barks'')),
      temp_names = [''k3x9'', ''q7w2''],
      open_error = posix_open_error,
      unicode_lower = latin_lower,
      from_file = riff_decoder,
      export = wav_encoder,
      http_str = starlette_str,
      list_str = (\<lambda>xs. ''[...]''),
      environ = Map.empty,
      requests_get = (\<lambda>url. Inr \<lparr>status_code = 200, chunks = [[1, 2], [3]], broken = None\<rparr>)\<rparr>"

definition empty_world :: world where
  "empty_world = \<lparr>files = Map.empty, events = []\<rparr>"

definition riff_bytes :: bytes where
  "riff_bytes = [0x52, 0x49, 0x46, 0x46, 0x24, 0x00]"

definition mp3_upload :: upload where
  "mp3_upload =
     \<lparr>filename = Some ''Clip.MP3'', content_type = Some ''audio/mpeg'', content = riff_bytes\<rparr>"

definition clip_upload :: upload where
  "clip_upload =
     \<lparr>filename = Some ''clip.mp3'', content_type = Some ''audio/mpeg'', content = riff_bytes\<rparr>"

definition text_upload :: upload where
  "text_upload =
     \<lparr>filename = Some ''notes.txt'', content_type = Some ''text/plain'',
      content = [0x68, 0x69]\<rparr>"

section \<open>Unfolding the embedding\<close>

lemmas io_defs = return_def raise_def bind_def try_except_def try_finally_def

lemmas lib_defs = NamedTemporaryFile_def file_read_def write_file_def os_path_exists_def
  os_unlink_def generate_caption_def AudioSegment_from_file_def audio_export_def
  set_temp_path_def set_wav_path_def unlink_if_exists_def os_path_splitext_def

lemmas main_defs = main_process_audio_def main_try_body_def main_except_def startswith_def
  exn_str_def py_str_def

lemmas route_defs = route_process_audio_def route_try_body_def route_except_def
  route_finally_def json_of_optional_def splitext_def rfind_def lower_def lower_char_def
  is_ascii_def
  exn_str_def py_str_def

lemmas example_defs = example_env_def empty_world_def mp3_upload_def text_upload_def
  clip_upload_def
  captioning_model_def raising_model_def silent_model_def riff_decoder_def wav_encoder_def
  starlette_str_def riff_bytes_def posix_open_error_def rfind_def

text \<open>The guard lets through exactly a non-empty list whose first element is true.\<close>

lemma malformed_iff: "malformed v \<longleftrightarrow> \<not> (\<exists>c cs. v = PyList (c # cs) \<and> truthy c)"
  by (cases v) (auto split: list.splits if_splits)

section \<open>The readiness gate\<close>

text \<open>
  C2. While the module global \<^verbatim>\<open>clap_model\<close> is None, \<^verbatim>\<open>process_audio\<close> of main.py and of
  route.py raises HTTPException 503 at once: the world it returns is the world it was
  given, so the upload was not read, no scratch file was created and no library was
  called.
\<close>

theorem not_ready_rejects:
  assumes "clap_model env = None"
  shows "main_process_audio env file w =
           (Inl (HTTPException 503 ''Model not initialized. Please try again later.''), w) \<and>
         route_process_audio env audio_file industry w =
           (Inl (HTTPException 503 ''Model not initialized. Please try again later.''), w)"
  using assms by (simp add: main_process_audio_def route_process_audio_def raise_def)

theorem not_ready_rejects_witness:
  "clap_model (example_env\<lparr>clap_model := None\<rparr>) = None \<and>
   main_process_audio (example_env\<lparr>clap_model := None\<rparr>) mp3_upload empty_world =
     (Inl (HTTPException 503 ''Model not initialized. Please try again later.''), empty_world) \<and>
   route_process_audio (example_env\<lparr>clap_model := None\<rparr>) mp3_upload (Some ''music'')
       empty_world =
     (Inl (HTTPException 503 ''Model not initialized. Please try again later.''), empty_world)"
proof -
  have h: "clap_model (example_env\<lparr>clap_model := None\<rparr>) = None" by simp
  show ?thesis
    using h not_ready_rejects [OF h, of mp3_upload empty_world mp3_upload "Some ''music''"]
    by simp
qed

section \<open>The tag of a request\<close>

lemma route_try_body_Inr:
  assumes "route_try_body env model audio_file industry s = (Inr resp, s')"
  shows "\<exists>c cs args fs. model args fs = Inr (PyList (c # cs)) \<and> truthy c \<and>
           resp = [(''caption'', JStr (py_str env c)),
                   (''industry'', json_of_optional industry),
                   (''status'', JStr ''success'')]"
  using assms unfolding route_try_body_def
  by (auto simp: io_defs lib_defs malformed_iff simp del: malformed.simps
      split: option.splits sum.splits prod.splits if_splits export_result.splits)

text \<open>
  C9. When \<^verbatim>\<open>process_audio\<close> of route.py succeeds, the \<^verbatim>\<open>industry\<close> field of its
  response is the tag the handler was called with: the very string \<open>t\<close> when the tag is
  \<open>Some t\<close>, null when there is none. Beside it stands the caption: the model returned a
  list whose first element is true, and the \<^verbatim>\<open>caption\<close> field is that element's
  \<^verbatim>\<open>str()\<close>, the element itself when it is a string. (\<^verbatim>\<open>industry\<close> is the handler's
  argument, as FastAPI hands the form field over.)
\<close>

theorem route_tag_unchanged:
  assumes "route_process_audio env audio_file industry w = (Inr resp, w')"
  shows "(\<forall>t. industry = Some t \<longrightarrow> map_of resp ''industry'' = Some (JStr t)) \<and>
         (industry = None \<longrightarrow> map_of resp ''industry'' = Some JNull) \<and>
         (\<exists>model c cs args fs cap.
            clap_model env = Some model \<and> model args fs = Inr (PyList (c # cs)) \<and> truthy c \<and>
            map_of resp ''caption'' = Some (JStr cap) \<and> (\<forall>t. c = PyStr t \<longrightarrow> cap = t)) \<and>
         map fst resp = [''caption'', ''industry'', ''status'']"
proof -
  obtain model where m: "clap_model env = Some model"
    using assms by (cases "clap_model env") (auto simp: route_process_audio_def raise_def)
  let ?s = "\<lparr>files = files w, events = events w, temp_path = None, wav_path = None\<rparr>"
  obtain r s where body: "route_try_body env model audio_file industry ?s = (r, s)"
    by (cases "route_try_body env model audio_file industry ?s") auto
  have "r = Inr resp"
    using assms m body
    by (cases r)
       (auto simp: route_process_audio_def try_finally_def try_except_def route_except_def
          raise_def split: prod.splits sum.splits if_splits)
  with body route_try_body_Inr [of env model audio_file industry ?s resp s]
  obtain c cs args fs where model: "model args fs = Inr (PyList (c # cs))" "truthy c"
    and resp: "resp = [(''caption'', JStr (py_str env c)),
                       (''industry'', json_of_optional industry),
                       (''status'', JStr ''success'')]"
    by blast
  have tag: "(\<forall>t. industry = Some t \<longrightarrow> map_of resp ''industry'' = Some (JStr t)) \<and>
             (industry = None \<longrightarrow> map_of resp ''industry'' = Some JNull)"
    using resp by (simp add: json_of_optional_def)
  have cap: "map_of resp ''caption'' = Some (JStr (py_str env c)) \<and>
             (\<forall>t. c = PyStr t \<longrightarrow> py_str env c = t)"
    using resp by (simp add: py_str_def)
  have keys: "map fst resp = [''caption'', ''industry'', ''status'']"
    using resp by simp
  from m model tag cap keys show ?thesis by blast
qed

theorem route_tag_unchanged_witness:
  "route_process_audio example_env mp3_upload (Some ''Music & Film'') empty_world =
     (Inr [(''caption'', JStr ''a dog barks''), (''industry'', JStr ''Music & Film''),
           (''status'', JStr ''success'')],
      \<lparr>files = Map.empty,
       events = [Create ''/tmp/tmpk3x9.mp3'', Read_upload,
                 Write ''/tmp/tmpk3x9.mp3'' riff_bytes, Decode ''/tmp/tmpk3x9.mp3'',
                 Export ''/tmp/tmpk3x9.mp3.wav'', Unlink ''/tmp/tmpk3x9.mp3'',
                 Generate_caption (fixed_args ''/tmp/tmpk3x9.mp3.wav''),
                 Unlink ''/tmp/tmpk3x9.mp3.wav'']\<rparr>) \<and>
   map_of [(''caption'', JStr ''a dog barks''), (''industry'', JStr ''Music & Film''),
           (''status'', JStr ''success'')] ''industry'' = Some (JStr ''Music & Film'') \<and>
   map_of [(''caption'', JStr ''a dog barks''), (''industry'', JStr ''Music & Film''),
           (''status'', JStr ''success'')] ''caption'' = Some (JStr ''a dog barks'')"
proof -
  have h: "route_process_audio example_env mp3_upload (Some ''Music & Film'') empty_world =
     (Inr [(''caption'', JStr ''a dog barks''), (''industry'', JStr ''Music & Film''),
           (''status'', JStr ''success'')],
      \<lparr>files = Map.empty,
       events = [Create ''/tmp/tmpk3x9.mp3'', Read_upload,
                 Write ''/tmp/tmpk3x9.mp3'' riff_bytes, Decode ''/tmp/tmpk3x9.mp3'',
                 Export ''/tmp/tmpk3x9.mp3.wav'', Unlink ''/tmp/tmpk3x9.mp3'',
                 Generate_caption (fixed_args ''/tmp/tmpk3x9.mp3.wav''),
                 Unlink ''/tmp/tmpk3x9.mp3.wav'']\<rparr>)"
    by (simp add: route_defs io_defs lib_defs example_defs fixed_args_def fun_eq_iff)
  from route_tag_unchanged [OF h] h show ?thesis by simp
qed

section \<open>HTTP exceptions in main.py\<close>

text \<open>
  C10. In main.py an HTTPException raised inside the \<^verbatim>\<open>try\<close> of \<^verbatim>\<open>process_audio\<close> leaves
  the handler as it was raised, with its status code and its detail, after the same
  changes to the world: the clause \<^verbatim>\<open>except HTTPException: raise\<close> stands before
  \<^verbatim>\<open>except Exception\<close>. So an upload whose content type does not start with
  \<^verbatim>\<open>audio/\<close> is answered 400 with the detail of line 146, and a model output that the
  guard of line 169 refuses is answered 500 with the detail of line 172, neither wrapped
  into \<^verbatim>\<open>Error processing audio: ...\<close>.
\<close>

theorem main_http_exception_propagates:
  assumes "clap_model env = Some model"
  shows "(main_try_body env model file w = (Inl (HTTPException c d), w') \<longrightarrow>
            main_process_audio env file w = (Inl (HTTPException c d), w')) \<and>
         (content_type file = Some ct \<and> \<not> startswith ct ''audio/'' \<longrightarrow>
            main_process_audio env file w =
              (Inl (HTTPException 400 ''Invalid file type. Please upload an audio file.''), w)) \<and>
         (content_type file = Some ct \<and> startswith ct ''audio/'' \<and>
          mkstemp_inner (open_error env) (temp_names env) ''.wav'' (files w) = Inr p \<and>
          model (fixed_args p) ((files w)(p \<mapsto> content file)) = Inr captions \<and>
          malformed captions \<longrightarrow>
            fst (main_process_audio env file w) =
              Inl (HTTPException 500 ''Failed to generate caption. Please try again.''))"
proof (intro conjI impI)
  assume "main_try_body env model file w = (Inl (HTTPException c d), w')"
  with assms show "main_process_audio env file w = (Inl (HTTPException c d), w')"
    by (simp add: main_process_audio_def try_except_def main_except_def raise_def)
next
  assume "content_type file = Some ct \<and> \<not> startswith ct ''audio/''"
  with assms show "main_process_audio env file w =
      (Inl (HTTPException 400 ''Invalid file type. Please upload an audio file.''), w)"
    by (simp add: main_process_audio_def main_try_body_def try_except_def main_except_def
        raise_def)
next
  assume h: "content_type file = Some ct \<and> startswith ct ''audio/'' \<and>
          mkstemp_inner (open_error env) (temp_names env) ''.wav'' (files w) = Inr p \<and>
          model (fixed_args p) ((files w)(p \<mapsto> content file)) = Inr captions \<and>
          malformed captions"
  then have "fst (main_try_body env model file w) =
      Inl (HTTPException 500 ''Failed to generate caption. Please try again.'')"
    by (simp add: main_try_body_def io_defs lib_defs fixed_args_def del: malformed.simps)
  with assms show "fst (main_process_audio env file w) =
      Inl (HTTPException 500 ''Failed to generate caption. Please try again.'')"
    by (cases "main_try_body env model file w")
       (simp add: main_process_audio_def try_except_def main_except_def raise_def)
qed

theorem main_http_exception_propagates_witness:
  "clap_model example_env = Some captioning_model \<and>
   main_try_body example_env captioning_model text_upload empty_world =
     (Inl (HTTPException 400 ''Invalid file type. Please upload an audio file.''), empty_world) \<and>
   content_type text_upload = Some ''text/plain'' \<and> \<not> startswith ''text/plain'' ''audio/'' \<and>
   main_process_audio example_env text_upload empty_world =
     (Inl (HTTPException 400 ''Invalid file type. Please upload an audio file.''), empty_world) \<and>
   clap_model (example_env\<lparr>clap_model := Some silent_model\<rparr>) = Some silent_model \<and>
   content_type mp3_upload = Some ''audio/mpeg'' \<and> startswith ''audio/mpeg'' ''audio/'' \<and>
   mkstemp_inner (open_error (example_env\<lparr>clap_model := Some silent_model\<rparr>))
     (temp_names (example_env\<lparr>clap_model := Some silent_model\<rparr>)) ''.wav''
     (files empty_world) = Inr ''/tmp/tmpk3x9.wav'' \<and>
   silent_model (fixed_args ''/tmp/tmpk3x9.wav'')
     ((files empty_world)(''/tmp/tmpk3x9.wav'' \<mapsto> content mp3_upload)) = Inr (PyList []) \<and>
   malformed (PyList []) \<and>
   fst (main_process_audio (example_env\<lparr>clap_model := Some silent_model\<rparr>) mp3_upload
          empty_world) =
     Inl (HTTPException 500 ''Failed to generate caption. Please try again.'')"
proof -
  have a: "clap_model example_env = Some captioning_model"
    by (simp add: example_env_def)
  have b: "main_try_body example_env captioning_model text_upload empty_world =
     (Inl (HTTPException 400 ''Invalid file type. Please upload an audio file.''), empty_world)"
    by (simp add: main_try_body_def raise_def startswith_def text_upload_def)
  have c: "content_type text_upload = Some ''text/plain'' \<and>
           \<not> startswith ''text/plain'' ''audio/''"
    by (simp add: text_upload_def startswith_def)
  have d: "clap_model (example_env\<lparr>clap_model := Some silent_model\<rparr>) = Some silent_model"
    by simp
  have e: "content_type mp3_upload = Some ''audio/mpeg'' \<and> startswith ''audio/mpeg'' ''audio/'' \<and>
     mkstemp_inner (open_error (example_env\<lparr>clap_model := Some silent_model\<rparr>))
       (temp_names (example_env\<lparr>clap_model := Some silent_model\<rparr>)) ''.wav''
       (files empty_world) = Inr ''/tmp/tmpk3x9.wav'' \<and>
     silent_model (fixed_args ''/tmp/tmpk3x9.wav'')
       ((files empty_world)(''/tmp/tmpk3x9.wav'' \<mapsto> content mp3_upload)) = Inr (PyList []) \<and>
     malformed (PyList [])"
    by (simp add: example_defs startswith_def)
  from main_http_exception_propagates [OF a, of text_upload empty_world 400
      "''Invalid file type. Please upload an audio file.''" empty_world "''text/plain''"]
    main_http_exception_propagates [OF d, of mp3_upload empty_world _ _ _ "''audio/mpeg''"
      "''/tmp/tmpk3x9.wav''" "PyList []"]
    a b c d e
  show ?thesis by simp
qed

section \<open>What the handlers add to the record of events\<close>

text \<open>
  Every step of a handler only appends to the record, so what a handler emits is put
  together from what its steps emit: one rule per combinator and per library call.
\<close>

lemma appendsI:
  assumes "\<And>w. \<exists>evs. events (snd (m w)) = events w @ evs \<and> list_all P evs"
  shows "appends P m"
  using assms by (simp add: appends_def)

lemma appendsD:
  assumes "appends P m"
  obtains evs where "events (snd (m w)) = events w @ evs" and "list_all P evs"
  using assms by (auto simp: appends_def)

lemma appends_return: "appends P (return x)"
  by (simp add: appends_def return_def)

lemma appends_raise: "appends P (raise e)"
  by (simp add: appends_def raise_def)

lemma appends_bind:
  assumes "appends P m" and "\<And>x. appends P (f x)"
  shows "appends P (bind m f)"
proof (rule appendsI)
  fix w
  obtain r w1 where mw: "m w = (r, w1)" by (cases "m w") auto
  from assms(1) obtain evs1 where e1: "events w1 = events w @ evs1" "list_all P evs1"
    using mw by (auto elim: appendsD[where w = w])
  show "\<exists>evs. events (snd (bind m f w)) = events w @ evs \<and> list_all P evs"
  proof (cases r)
    case (Inl e)
    with mw e1 show ?thesis by (auto simp: bind_def)
  next
    case (Inr x)
    from assms(2)[of x] obtain evs2 where
      e2: "events (snd (f x w1)) = events w1 @ evs2" "list_all P evs2"
      by (auto elim: appendsD[where w = w1])
    with Inr mw e1 show ?thesis by (auto simp: bind_def)
  qed
qed

lemma appends_try_except:
  assumes "appends P m" and "\<And>e. appends P (h e)"
  shows "appends P (try_except m h)"
proof (rule appendsI)
  fix w
  obtain r w1 where mw: "m w = (r, w1)" by (cases "m w") auto
  from assms(1) obtain evs1 where e1: "events w1 = events w @ evs1" "list_all P evs1"
    using mw by (auto elim: appendsD[where w = w])
  show "\<exists>evs. events (snd (try_except m h w)) = events w @ evs \<and> list_all P evs"
  proof (cases r)
    case (Inr x)
    with mw e1 show ?thesis by (auto simp: try_except_def)
  next
    case (Inl e)
    from assms(2)[of e] obtain evs2 where
      e2: "events (snd (h e w1)) = events w1 @ evs2" "list_all P evs2"
      by (auto elim: appendsD[where w = w1])
    with Inl mw e1 show ?thesis by (auto simp: try_except_def)
  qed
qed

lemma appends_try_finally:
  assumes "appends P m" and "appends P fin"
  shows "appends P (try_finally m fin)"
proof (rule appendsI)
  fix w
  obtain r w1 where mw: "m w = (r, w1)" by (cases "m w") auto
  from assms(1) obtain evs1 where e1: "events w1 = events w @ evs1" "list_all P evs1"
    using mw by (auto elim: appendsD[where w = w])
  obtain r2 w2 where fw: "fin w1 = (r2, w2)" by (cases "fin w1") auto
  from assms(2) obtain evs2 where e2: "events w2 = events w1 @ evs2" "list_all P evs2"
    using fw by (auto elim: appendsD[where w = w1])
  from mw fw e1 e2
  show "\<exists>evs. events (snd (try_finally m fin w)) = events w @ evs \<and> list_all P evs"
    by (cases r2) (auto simp: try_finally_def)
qed

lemma appends_if:
  assumes "c \<Longrightarrow> appends P a" and "\<not> c \<Longrightarrow> appends P b"
  shows "appends P (if c then a else b)"
  using assms by simp

lemma appends_case_option:
  assumes "appends P a" and "\<And>x. appends P (b x)"
  shows "appends P (case v of None \<Rightarrow> a | Some x \<Rightarrow> b x)"
  using assms by (cases v) simp_all

lemma appends_NamedTemporaryFile: "appends fixed_call (NamedTemporaryFile env suffix)"
  by (auto simp: appends_def NamedTemporaryFile_def split: sum.splits)

lemma appends_file_read: "appends fixed_call (file_read file)"
  by (simp add: appends_def file_read_def)

lemma appends_write_file: "appends fixed_call (write_file p bs)"
  by (simp add: appends_def write_file_def)

lemma appends_os_unlink: "appends fixed_call (os_unlink p)"
  by (simp add: appends_def os_unlink_def)

lemma appends_generate_caption: "appends fixed_call (generate_caption model (fixed_args p))"
  by (simp add: appends_def generate_caption_def fixed_args_def)

lemma appends_getitem0: "appends P (getitem0 v)"
  by (cases v rule: getitem0.cases) (simp_all add: appends_return appends_raise)

lemma appends_from_file: "appends fixed_call (AudioSegment_from_file env p)"
  by (auto simp: appends_def AudioSegment_from_file_def split: option.splits)

lemma appends_audio_export: "appends fixed_call (audio_export env audio p)"
  by (auto simp: appends_def audio_export_def split: option.splits export_result.splits)

lemma appends_set_temp_path: "appends P (set_temp_path v)"
  by (simp add: appends_def set_temp_path_def)

lemma appends_set_wav_path: "appends P (set_wav_path v)"
  by (simp add: appends_def set_wav_path_def)

lemma appends_os_path_splitext: "appends P (os_path_splitext v)"
  by (cases v) (simp_all add: os_path_splitext_def appends_return appends_raise)

lemma appends_unlink_if_exists: "appends fixed_call (unlink_if_exists v)"
  by (auto simp: appends_def unlink_if_exists_def os_unlink_def split: option.splits)

lemma appends_route_finally: "appends fixed_call route_finally"
  by (auto simp: appends_def route_finally_def bind_def unlink_if_exists_def os_unlink_def os_path_exists_def split: option.splits)

lemma appends_route_except: "appends P (route_except env e)"
  by (simp add: route_except_def appends_raise)

lemma appends_main_except: "appends P (main_except env e)"
  by (cases e) (simp_all add: main_except_def appends_raise)

lemmas appends_intros = appends_return appends_raise appends_bind appends_try_except
  appends_try_finally appends_if appends_case_option appends_NamedTemporaryFile
  appends_file_read appends_write_file appends_os_unlink appends_generate_caption
  appends_getitem0 appends_from_file appends_audio_export appends_set_temp_path
  appends_set_wav_path appends_os_path_splitext appends_unlink_if_exists
  appends_route_finally appends_route_except appends_main_except

lemma appends_main_try_body: "appends fixed_call (main_try_body env model file)"
  unfolding main_try_body_def fixed_args_def[symmetric]
  by (intro appends_intros)

lemma appends_route_try_body: "appends fixed_call (route_try_body env model audio_file industry)"
  unfolding route_try_body_def fixed_args_def[symmetric]
  by (intro appends_intros)

lemma emitted_appends:
  assumes "appends P m"
  shows "list_all P (emitted w (snd (m w)))"
proof -
  from assms obtain evs where "events (snd (m w)) = events w @ evs" "list_all P evs"
    by (auto elim: appendsD[where w = w])
  then show ?thesis by (simp add: emitted_def)
qed

lemma appends_main_process_audio: "appends fixed_call (main_process_audio env file)"
  unfolding main_process_audio_def
  by (intro appends_intros appends_main_try_body)

lemma appends_streamlit_try_body: "appends fixed_call (streamlit_try_body env model file)"
  unfolding streamlit_try_body_def fixed_args_def[symmetric]
  by (intro appends_intros)

lemma appends_streamlit_process_audio: "appends fixed_call (streamlit_process_audio env file)"
  unfolding streamlit_process_audio_def
  by (intro appends_intros appends_streamlit_try_body)

lemma appends_emit: "P ev \<Longrightarrow> appends P (emit ev)"
  by (simp add: appends_def emit_def)

lemma appends_st_error_handler: "appends fixed_call (st_error_handler env e)"
  unfolding st_error_handler_def
  by (intro appends_intros appends_emit) simp

lemma appends_session_generate_caption:
  "appends fixed_call (session_generate_caption env (fixed_args p))"
  unfolding session_generate_caption_def
  by (intro appends_intros)

lemma appends_process_audio_streamlit: "appends fixed_call (process_audio_streamlit env file)"
  unfolding process_audio_streamlit_def fixed_args_def[symmetric]
  by (intro appends_intros appends_session_generate_caption appends_st_error_handler)

lemma appends_route_process_audio:
  "appends fixed_call (route_process_audio env audio_file industry)"
proof (cases "clap_model env")
  case None
  then show ?thesis by (simp add: route_process_audio_def appends_raise)
next
  case (Some model)
  let ?m = "try_finally
              (try_except (route_try_body env model audio_file industry) (route_except env))
              route_finally"
  have m: "appends fixed_call ?m"
    by (intro appends_intros appends_route_try_body)
  show ?thesis
  proof (rule appendsI)
    fix w :: world
    let ?s = "\<lparr>files = files w, events = events w, temp_path = None, wav_path = None\<rparr>"
    from m obtain evs where "events (snd (?m ?s)) = events ?s @ evs" "list_all fixed_call evs"
      by (auto elim: appendsD[where w = ?s])
    then show "\<exists>evs. events (snd (route_process_audio env audio_file industry w)) = events w @ evs
                 \<and> list_all fixed_call evs"
      using Some by (auto simp: route_process_audio_def split: prod.splits)
  qed
qed

section \<open>The decoding parameters\<close>

text \<open>
  C6, as amended. Every model invocation made by \<^verbatim>\<open>process_audio\<close> of main.py, of
  route.py and of streamlit_app.py and by \<^verbatim>\<open>process_audio_streamlit\<close> is a
  \<^verbatim>\<open>generate_caption\<close> call on one file with \<^verbatim>\<open>resample=True\<close>, \<^verbatim>\<open>beam_size=3\<close>,
  \<^verbatim>\<open>entry_length=67\<close> and \<^verbatim>\<open>temperature=0.01\<close>, whatever the model, the upload, the tag
  and the state of the world: no input of the handlers reaches the parameters.
\<close>

theorem generate_caption_fixed_parameters:
  "list_all fixed_call (emitted w (snd (main_process_audio env file w))) \<and>
   list_all fixed_call (emitted w (snd (route_process_audio env audio_file industry w))) \<and>
   list_all fixed_call (emitted w (snd (streamlit_process_audio env file w))) \<and>
   list_all fixed_call (emitted w (snd (process_audio_streamlit env file w)))"
  by (simp add: emitted_appends appends_main_process_audio appends_route_process_audio
      appends_streamlit_process_audio appends_process_audio_streamlit)

text \<open>The theorem at a request that reaches the model, which is called once.\<close>

theorem generate_caption_fixed_parameters_witness:
  "list_all fixed_call
     (emitted empty_world (snd (main_process_audio example_env mp3_upload empty_world))) \<and>
   emitted empty_world (snd (main_process_audio example_env mp3_upload empty_world)) =
     [Create ''/tmp/tmpk3x9.wav'', Read_upload, Write ''/tmp/tmpk3x9.wav'' riff_bytes,
      Generate_caption (fixed_args ''/tmp/tmpk3x9.wav''), Unlink ''/tmp/tmpk3x9.wav'']"
proof -
  have "emitted empty_world (snd (main_process_audio example_env mp3_upload empty_world)) =
     [Create ''/tmp/tmpk3x9.wav'', Read_upload, Write ''/tmp/tmpk3x9.wav'' riff_bytes,
      Generate_caption (fixed_args ''/tmp/tmpk3x9.wav''), Unlink ''/tmp/tmpk3x9.wav'']"
    by (simp add: emitted_def main_defs io_defs lib_defs example_defs fixed_args_def)
  with generate_caption_fixed_parameters [of empty_world example_env mp3_upload]
  show ?thesis by simp
qed

text \<open>
  C6 as stated fails in api/python/streamlit_app.py: its \<^verbatim>\<open>process_audio\<close> invokes the
  model by \<^verbatim>\<open>predict(temp_path)\<close>, passing no beam size, length, temperature or
  resampling request.
\<close>

theorem predict_without_parameters:
  "emitted empty_world (snd (clapcap_process_audio example_env mp3_upload empty_world)) =
     [Create ''/tmp/tmpk3x9.wav'', Read_upload, Write ''/tmp/tmpk3x9.wav'' riff_bytes,
      Predict ''/tmp/tmpk3x9.wav'', Unlink ''/tmp/tmpk3x9.wav''] \<and>
   \<not> list_all fixed_call
       (emitted empty_world (snd (clapcap_process_audio example_env mp3_upload empty_world)))"
  by (simp add: clapcap_process_audio_def model_predict_def st_error_handler_def emitted_def
      io_defs lib_defs example_defs)

text \<open>
  Whatever the model, the upload and the world, \<^verbatim>\<open>process_audio\<close> of
  api/python/streamlit_app.py never calls \<^verbatim>\<open>generate_caption\<close>.
\<close>

lemma clapcap_never_generate_caption:
  "list_all no_generate_caption (emitted w (snd (clapcap_process_audio env audio_file w)))"
  by (auto simp: clapcap_process_audio_def model_predict_def st_error_handler_def emit_def
      emitted_def io_defs lib_defs split: sum.splits option.splits prod.splits if_splits)

section \<open>The scratch file of the upload\<close>

text \<open>
  The name \<^verbatim>\<open>NamedTemporaryFile\<close> returns is new, is one the system did not refuse, and
  ends with the suffix asked for.
\<close>

lemma endswith_append: "endswith (xs @ p) p"
  by (simp add: endswith_def)

lemma mkstemp_inner_Inr:
  "mkstemp_inner refuse ns suffix fs = Inr p \<Longrightarrow>
     fs p = None \<and> refuse p = None \<and> endswith p suffix"
proof (induction ns)
  case Nil
  then show ?case by simp
next
  case (Cons n ns)
  let ?file = "(''/tmp/tmp'' @ n) @ suffix"
  from Cons.prems have ok: "refuse ?file = None"
    by (cases "refuse ?file") (simp_all add: Let_def)
  show ?case
  proof (cases "fs ?file")
    case None
    with Cons.prems ok have "p = ?file" by (simp add: Let_def)
    with None ok show ?thesis using endswith_append [of "''/tmp/tmp'' @ n" suffix] by simp
  next
    case (Some bs)
    with Cons.prems ok have "mkstemp_inner refuse ns suffix fs = Inr p"
      by (simp add: Let_def)
    then show ?thesis by (rule Cons.IH)
  qed
qed

text \<open>On an ASCII string \<open>lower\<close> is the map of A-Z to a-z.\<close>

lemma lower_ascii: "is_ascii s \<Longrightarrow> lower env s = map lower_char s"
  by (simp add: lower_def)

text \<open>Beyond ASCII \<open>lower\<close> is the parameter: \<^verbatim>\<open>.\<close>, capital A grave, \<^verbatim>\<open>B\<close> in the examples.\<close>

lemma lower_latin_example:
  "lower example_env [CHR ''.'', CHR 0xC3, CHR 0x80, CHR ''B''] =
     [CHR ''.'', CHR 0xC3, CHR 0xA0, CHR ''b'']"
  by (simp add: lower_def is_ascii_def example_env_def lower_char_def)

lemma take_emitted:
  assumes "events w' = (events w @ evs) @ tl_evs" and "length evs = n"
  shows "take n (emitted w w') = evs"
  using assms by (simp add: emitted_def)

lemma main_scratch_file:
  assumes m: "clap_model env = Some model"
    and ct: "content_type file = Some ct" "startswith ct ''audio/''"
    and mk: "mkstemp_inner (open_error env) (temp_names env) ''.wav'' (files w) = Inr q"
  shows "take 3 (emitted w (snd (main_process_audio env file w))) =
           [Create q, Read_upload, Write q (content file)]"
proof -
  define rest :: "path \<Rightarrow> (world, response) io" where "rest = (\<lambda>temp_path.
            bind (generate_caption model (fixed_args temp_path)) (\<lambda>captions.
            bind (os_unlink temp_path) (\<lambda>u.
            if malformed captions
            then raise (HTTPException 500 ''Failed to generate caption. Please try again.'')
            else bind (getitem0 captions) (\<lambda>c.
                 return [(''caption'', JStr (py_str env c))]))))"
  define w3 where "w3 = w\<lparr>files := (files w)(q \<mapsto> content file),
       events := events w @ [Create q, Read_upload, Write q (content file)]\<rparr>"
  have rest: "appends fixed_call (try_except (rest q) (main_except env))"
    unfolding rest_def by (intro appends_intros)
  have "main_try_body env model file =
          bind (NamedTemporaryFile env ''.wav'') (\<lambda>temp_path.
          bind (file_read file) (\<lambda>content.
          bind (write_file temp_path content) (\<lambda>u. rest temp_path)))"
    using ct by (simp add: main_try_body_def rest_def fixed_args_def)
  then have "main_try_body env model file w = rest q w3"
    using mk by (simp add: bind_def NamedTemporaryFile_def file_read_def write_file_def w3_def)
  then have "main_process_audio env file w = try_except (rest q) (main_except env) w3"
    using m by (simp add: main_process_audio_def try_except_def)
  moreover obtain tl_evs where
    "events (snd (try_except (rest q) (main_except env) w3)) = events w3 @ tl_evs"
    using rest by (auto elim: appendsD[where w = w3])
  ultimately have "events (snd (main_process_audio env file w)) =
      (events w @ [Create q, Read_upload, Write q (content file)]) @ tl_evs"
    by (simp add: w3_def)
  then show ?thesis by (rule take_emitted) simp
qed

lemma route_scratch_file:
  assumes m: "clap_model env = Some model"
    and fn: "filename audio_file = Some name"
    and mk: "mkstemp_inner (open_error env) (temp_names env) (lower env (snd (splitext name)))
               (files w) = Inr p"
  shows "take 3 (emitted w (snd (route_process_audio env audio_file industry w))) =
           [Create p, Read_upload, Write p (content audio_file)]"
proof -
  define rest :: "path \<Rightarrow> (route_state, response) io" where "rest = (\<lambda>name.
     bind (AudioSegment_from_file env name) (\<lambda>audio.
     bind (set_wav_path (Some (name @ ''.wav''))) (\<lambda>u.
     bind (audio_export env audio (name @ ''.wav'')) (\<lambda>u.
     bind (os_unlink name) (\<lambda>u.
     bind (set_temp_path None) (\<lambda>u.
     bind (generate_caption model (fixed_args (name @ ''.wav''))) (\<lambda>captions.
     if malformed captions
     then raise (HTTPException 500 ''Failed to generate caption. Please try again.'')
     else bind (getitem0 captions) (\<lambda>c.
          return [(''caption'', JStr (py_str env c)),
                  (''industry'', json_of_optional industry),
                  (''status'', JStr ''success'')]))))))))"
  define s3 :: route_state where "s3 = \<lparr>files = (files w)(p \<mapsto> content audio_file),
       events = events w @ [Create p, Read_upload, Write p (content audio_file)],
       temp_path = Some p, wav_path = None\<rparr>"
  let ?s0 = "\<lparr>files = files w, events = events w, temp_path = None, wav_path = None\<rparr>"
  let ?run = "\<lambda>body. try_finally (try_except body (route_except env)) route_finally"
  have rest: "appends fixed_call (?run (rest p))"
    unfolding rest_def by (intro appends_intros)
  have "route_try_body env model audio_file industry =
     bind (os_path_splitext (filename audio_file)) (\<lambda>parts.
     bind (NamedTemporaryFile env (lower env (snd parts))) (\<lambda>name.
     bind (set_temp_path (Some name)) (\<lambda>u.
     bind (file_read audio_file) (\<lambda>content.
     bind (write_file name content) (\<lambda>u. rest name)))))"
    by (simp add: route_try_body_def rest_def fixed_args_def)
  then have "route_try_body env model audio_file industry ?s0 = rest p s3"
    using fn mk
    by (simp add: bind_def return_def os_path_splitext_def NamedTemporaryFile_def
        set_temp_path_def file_read_def write_file_def s3_def)
  then have "?run (route_try_body env model audio_file industry) ?s0 = ?run (rest p) s3"
    by (simp add: try_finally_def try_except_def)
  moreover obtain tl_evs where "events (snd (?run (rest p) s3)) = events s3 @ tl_evs"
    using rest by (auto elim: appendsD[where w = s3])
  ultimately have "events (snd (route_process_audio env audio_file industry w)) =
      (events w @ [Create p, Read_upload, Write p (content audio_file)]) @ tl_evs"
    using m by (auto simp: route_process_audio_def s3_def split: prod.splits)
  then show ?thesis by (rule take_emitted) simp
qed

text \<open>
  When the model is loaded and the upload has a name, \<^verbatim>\<open>process_audio\<close> of route.py
  first creates a file that did not exist, named with the lower-cased extension of the
  uploaded file's name (\<^verbatim>\<open>os.path.splitext(...)[1].lower()\<close>), and writes the upload
  into it. When the system refuses the name (the extension comes from the request) the
  handler answers 500 and nothing is created.
\<close>

lemma route_scratch_file_suffix:
  assumes "clap_model env = Some model" and "filename audio_file = Some name"
    and "mkstemp_inner (open_error env) (temp_names env) (lower env (snd (splitext name)))
           (files w) = Inr p"
  shows "take 3 (emitted w (snd (route_process_audio env audio_file industry w))) =
           [Create p, Read_upload, Write p (content audio_file)] \<and>
         files w p = None \<and> endswith p (lower env (snd (splitext name)))"
  using assms route_scratch_file [of env model audio_file name w p industry]
    mkstemp_inner_Inr [of "open_error env" "temp_names env" "lower env (snd (splitext name))"
      "files w" p]
  by blast

lemma route_scratch_file_refused:
  assumes "clap_model env = Some model" and "filename audio_file = Some name"
    and "mkstemp_inner (open_error env) (temp_names env) (lower env (snd (splitext name)))
           (files w) = Inl e"
    and "is_Exception e"
  shows "route_process_audio env audio_file industry w =
           (Inl (HTTPException 500 (''Error processing audio: '' @ exn_str env e)), w)"
  using assms
  by (simp add: route_process_audio_def route_try_body_def route_except_def route_finally_def
      io_defs lib_defs)

text \<open>
  C7 at main.py. An upload called \<^verbatim>\<open>clip.mp3\<close>, of content type \<^verbatim>\<open>audio/mpeg\<close>, is
  written to a scratch file whose name ends in \<^verbatim>\<open>.wav\<close>: line 150 passes the literal
  suffix, and the extension \<^verbatim>\<open>.mp3\<close> of the uploaded name is lost. (route.py writes the
  same upload to a file ending in \<^verbatim>\<open>.mp3\<close>.)
\<close>

theorem main_hard_codes_wav_suffix:
  "filename clip_upload = Some ''clip.mp3'' \<and> snd (splitext ''clip.mp3'') = ''.mp3'' \<and>
   take 3 (emitted empty_world (snd (main_process_audio example_env clip_upload empty_world))) =
     [Create ''/tmp/tmpk3x9.wav'', Read_upload, Write ''/tmp/tmpk3x9.wav'' riff_bytes] \<and>
   \<not> endswith ''/tmp/tmpk3x9.wav'' ''.mp3'' \<and>
   take 3 (emitted empty_world
             (snd (route_process_audio example_env clip_upload None empty_world))) =
     [Create ''/tmp/tmpk3x9.mp3'', Read_upload, Write ''/tmp/tmpk3x9.mp3'' riff_bytes] \<and>
   endswith ''/tmp/tmpk3x9.mp3'' ''.mp3''"
proof -
  have "filename clip_upload = Some ''clip.mp3'' \<and> snd (splitext ''clip.mp3'') = ''.mp3''"
    by (simp add: clip_upload_def splitext_def rfind_def)
  moreover have
    "take 3 (emitted empty_world
               (snd (main_process_audio example_env clip_upload empty_world))) =
       [Create ''/tmp/tmpk3x9.wav'', Read_upload, Write ''/tmp/tmpk3x9.wav'' riff_bytes]"
    by (simp add: emitted_def main_defs io_defs lib_defs example_defs)
  moreover have
    "take 3 (emitted empty_world
               (snd (route_process_audio example_env clip_upload None empty_world))) =
       [Create ''/tmp/tmpk3x9.mp3'', Read_upload, Write ''/tmp/tmpk3x9.mp3'' riff_bytes]"
    by (simp add: emitted_def route_defs io_defs lib_defs example_defs)
  moreover have "\<not> endswith ''/tmp/tmpk3x9.wav'' ''.mp3'' \<and>
                 endswith ''/tmp/tmpk3x9.mp3'' ''.mp3''"
    by (simp add: endswith_def)
  ultimately show ?thesis by simp
qed

section \<open>Where the handlers part ways\<close>

text \<open>
  C1 at main.py. The model raises while captioning: \<^verbatim>\<open>os.unlink(temp_path)\<close> of line 166
  is never reached, the handler answers 500, and the scratch file it created is still
  on disk when it returns. (route.py deletes in a \<^verbatim>\<open>finally\<close>.)
\<close>

theorem main_leaves_scratch_file:
  "main_process_audio (example_env\<lparr>clap_model := Some raising_model\<rparr>) mp3_upload
       empty_world =
     (Inl (HTTPException 500 ''Error processing audio: out of memory''),
      \<lparr>files = [''/tmp/tmpk3x9.wav'' \<mapsto> riff_bytes],
       events = [Create ''/tmp/tmpk3x9.wav'', Read_upload,
                 Write ''/tmp/tmpk3x9.wav'' riff_bytes,
                 Generate_caption (fixed_args ''/tmp/tmpk3x9.wav'')]\<rparr>)"
  by (simp add: main_defs io_defs lib_defs example_defs fixed_args_def)

text \<open>
  The FastAPI handler of streamlit_app.py (lines 90 to 131) has the same shape as that of
  main.py and leaves its scratch file behind in the same way.
\<close>

lemma streamlit_leaves_scratch_file:
  "streamlit_process_audio (example_env\<lparr>session_model := Some raising_model\<rparr>) mp3_upload
       empty_world =
     (Inl (HTTPException 500 ''Error processing audio: out of memory''),
      \<lparr>files = [''/tmp/tmpk3x9.wav'' \<mapsto> riff_bytes],
       events = [Create ''/tmp/tmpk3x9.wav'', Read_upload,
                 Write ''/tmp/tmpk3x9.wav'' riff_bytes,
                 Generate_caption (fixed_args ''/tmp/tmpk3x9.wav'')]\<rparr>)"
  by (simp add: streamlit_process_audio_def streamlit_try_body_def route_except_def exn_str_def
      io_defs lib_defs example_defs fixed_args_def)

text \<open>
  C3 at route.py. An upload declared \<^verbatim>\<open>text/plain\<close> is not refused: the handler stores
  it, hands it to the decoder, and answers 500 with the decoder's complaint. (main.py
  refuses it with 400 before it touches anything.)
\<close>

theorem route_decodes_text_upload:
  "route_process_audio example_env text_upload None empty_world =
     (Inl (HTTPException 500 ''Error processing audio: Decoding failed''),
      \<lparr>files = Map.empty,
       events = [Create ''/tmp/tmpk3x9.txt'', Read_upload,
                 Write ''/tmp/tmpk3x9.txt'' [0x68, 0x69],
                 Decode ''/tmp/tmpk3x9.txt'', Unlink ''/tmp/tmpk3x9.txt'']\<rparr>)"
  by (simp add: route_defs io_defs lib_defs example_defs fun_eq_iff)

text \<open>
  C5 at route.py. When the model returns an empty list, the HTTPException of line 181 is
  caught by \<^verbatim>\<open>except Exception\<close> and wrapped: the caller gets
  \<^verbatim>\<open>Error processing audio: ...\<close>, the answer it would get had the model raised an
  exception with that text. (main.py lets the HTTPException through.)
\<close>

theorem route_wraps_malformed_output:
  "fst (route_process_audio (example_env\<lparr>clap_model := Some silent_model\<rparr>) mp3_upload None
          empty_world) =
     Inl (HTTPException 500
            ''Error processing audio: 500: Failed to generate caption. Please try again.'') \<and>
   fst (route_process_audio
          (example_env\<lparr>clap_model := Some (\<lambda>args fs. Inl (PyException ''RuntimeError''
             ''500: Failed to generate caption. Please try again.''))\<rparr>) mp3_upload None
          empty_world) =
     Inl (HTTPException 500
            ''Error processing audio: 500: Failed to generate caption. Please try again.'')"
  by (simp add: route_defs io_defs lib_defs example_defs fixed_args_def)

text \<open>
  C8 at main.py. With the weights missing and no environment variable named by the
  release URL, \<^verbatim>\<open>download_model\<close> calls \<^verbatim>\<open>requests.get(None)\<close>: nothing is fetched from the
  release URL and no weight file is written.
\<close>

theorem main_download_passes_no_url:
  "main_download_model example_env empty_world =
     (Inl (PyException ''MissingSchema'' ''Invalid URL None: No scheme supplied''),
      \<lparr>files = Map.empty, events = [Requests_get None]\<rparr>)"
  by (simp add: main_download_model_def requests_get_call_def os_path_exists_def io_defs
      example_defs MODEL_URL_def MODEL_PATH_def)

section \<open>Fetching the weights in route.py\<close>

lemma write_chunks_events: "events (write_chunks p cs w) = events w"
  by (induction cs arbitrary: w) simp_all

lemma write_chunks_exists:
  "files w p \<noteq> None \<Longrightarrow> \<exists>bs. files (write_chunks p cs w) p = Some bs"
  by (induction cs arbitrary: w) auto

text \<open>When the weight file exists, nothing is fetched and nothing changes.\<close>

lemma route_download_model_skips:
  "os_path_exists MODEL_PATH w \<Longrightarrow> route_download_model env w = (Inr (), w)"
  by (simp add: route_download_model_def)

text \<open>When it does not, \<^verbatim>\<open>requests.get\<close> is called once, with the release URL.\<close>

lemma route_download_model_fetches:
  "\<not> os_path_exists MODEL_PATH w \<Longrightarrow>
     emitted w (snd (route_download_model env w)) = [Requests_get (Some MODEL_URL)]"
  by (auto simp: route_download_model_def requests_get_call_def raise_for_status_def
      open_wb_def iter_content_write_def io_defs emitted_def Let_def write_chunks_events
      split: sum.splits option.splits)

text \<open>After a call that returns, the file exists, so a second call does nothing.\<close>

lemma route_download_model_idempotent:
  assumes "route_download_model env w = (Inr (), w')"
  shows "os_path_exists MODEL_PATH w' \<and> route_download_model env w' = (Inr (), w')"
proof -
  have "os_path_exists MODEL_PATH w'"
  proof (cases "os_path_exists MODEL_PATH w")
    case True
    with assms show ?thesis by (simp add: route_download_model_def)
  next
    case False
    with assms show ?thesis
      by (auto simp: route_download_model_def requests_get_call_def raise_for_status_def
          open_wb_def iter_content_write_def io_defs Let_def os_path_exists_def
          intro!: write_chunks_exists split: sum.splits option.splits if_splits)
  qed
  then show ?thesis by (simp add: route_download_model_skips)
qed

section \<open>The scratch files of route.py are deleted on every exit\<close>

lemma mkstemp_inner_nonempty: "mkstemp_inner refuse ns suffix fs = Inr p \<Longrightarrow> p \<noteq> []"
  by (induction ns) (auto simp: Let_def split: if_splits option.splits)

text \<open>
  However the \<^verbatim>\<open>try\<close> of route.py ends, a file that was not there before is named by
  \<^verbatim>\<open>temp_path\<close> or by \<^verbatim>\<open>wav_path\<close>.
\<close>

lemma route_try_body_tracks:
  assumes "route_try_body env model audio_file industry
             \<lparr>files = F, events = evs, temp_path = None, wav_path = None\<rparr> = (r, s)"
    and "files s p \<noteq> None"
  shows "F p \<noteq> None \<or> (p \<noteq> [] \<and> (temp_path s = Some p \<or> wav_path s = Some p))"
  using assms unfolding route_try_body_def
  by (auto simp: io_defs lib_defs malformed_iff simp del: malformed.simps
      dest: mkstemp_inner_nonempty
      split: option.splits sum.splits prod.splits if_splits export_result.splits)

text \<open>The \<^verbatim>\<open>finally\<close> leaves no file that one of the two variables names.\<close>

lemma route_finally_cleans:
  assumes "files (snd (route_finally s)) p \<noteq> None"
  shows "files s p \<noteq> None \<and> \<not> (p \<noteq> [] \<and> (temp_path s = Some p \<or> wav_path s = Some p))"
  using assms
  by (auto simp: route_finally_def unlink_if_exists_def os_unlink_def os_path_exists_def
      bind_def split: option.splits if_splits)

text \<open>
  So \<^verbatim>\<open>process_audio\<close> of route.py, on every exit (success, a failing decoder or
  encoder, a failing or silent model, an exception outside \<^verbatim>\<open>Exception\<close>), returns
  with no file on disk that was not there when it was called.
\<close>

lemma route_process_audio_cleans:
  assumes "files (snd (route_process_audio env audio_file industry w)) p \<noteq> None"
  shows "files w p \<noteq> None"
proof (cases "clap_model env")
  case None
  with assms show ?thesis by (simp add: route_process_audio_def raise_def)
next
  case (Some model)
  let ?s0 = "\<lparr>files = files w, events = events w, temp_path = None, wav_path = None\<rparr>"
  obtain r s where body: "route_try_body env model audio_file industry ?s0 = (r, s)"
    by (cases "route_try_body env model audio_file industry ?s0") auto
  obtain r1 s1 where exc:
    "try_except (route_try_body env model audio_file industry) (route_except env) ?s0 = (r1, s1)"
    by (cases "try_except (route_try_body env model audio_file industry) (route_except env) ?s0")
       auto
  have s1: "s1 = s"
    using body exc
    by (cases r) (auto simp: try_except_def route_except_def raise_def split: if_splits)
  have "files (snd (route_finally s)) p \<noteq> None"
    using assms Some exc s1
    by (auto simp: route_process_audio_def try_finally_def split: prod.splits sum.splits)
  then have "files s p \<noteq> None"
    and "\<not> (p \<noteq> [] \<and> (temp_path s = Some p \<or> wav_path s = Some p))"
    using route_finally_cleans [of s p] by simp_all
  with route_try_body_tracks [OF body, of p] show ?thesis by blast
qed

end
